theory Spec2Isabelle
  imports Main
begin

section \<open>Domain types (internal/core/types.go)\<close>

text \<open>
  \<open>TaskStatus\<close> is only ever assigned one of its five constants, by
  \<open>RecomputeStatus\<close>, and is modelled as an enumeration. \<open>FileState\<close> is a Go string
  type with four constants: the code assigns only these, but a file read back from the
  journal carries whatever string the record holds, so a state is a string. Timestamps
  (\<open>*time.Time\<close>) are optional clock readings, a nil pointer being \<open>None\<close>.
\<close>

datatype TaskStatus = TaskPending | TaskRunning | TaskComplete | TaskFailed | TaskPartial

type_synonym FileState = string

definition FilePending :: FileState where
  "FilePending = ''PENDING''"

definition FileRunning :: FileState where
  "FileRunning = ''RUNNING''"

definition FileDone :: FileState where
  "FileDone = ''DONE''"

definition FileFailed :: FileState where
  "FileFailed = ''FAILED''"

record FileItem =
  URL :: string
  Filename :: string
  State :: FileState
  Error :: string
  Attempts :: int
  MaxAttempts :: int
  BytesDownloaded :: int
  SizeHint :: int
  StartedAt :: "nat option"
  FinishedAt :: "nat option"
  Host :: string

record Task =
  ID :: string
  Label :: string
  CreatedAt :: nat
  DestDir :: string
  Status :: TaskStatus
  Files :: "FileItem list"
  Total :: int
  Done :: int
  Failed :: int
  Pending :: int
  Running :: int
  Retries :: int

subsection \<open>sanitizeFilename\<close>

text \<open>
  \<open>strings.NewReplacer\<close> with single-byte patterns rewrites every byte on its own:
  \<open>:\<close>, \<open>/\<close> and the backslash become \<open>-\<close>; \<open>*\<close>, \<open>?\<close>, the double quote,
  \<open><\<close>, \<open>>\<close>, \<open>|\<close>, line feed and carriage return are dropped.
\<close>

definition replace_byte :: "char \<Rightarrow> string" where
  "replace_byte c =
     (if c = CHR '':'' \<or> c = CHR ''/'' \<or> c = CHR 0x5C then ''-''
      else if c = CHR ''*'' \<or> c = CHR ''?'' \<or> c = CHR 0x22 \<or> c = CHR ''<''
              \<or> c = CHR ''>'' \<or> c = CHR ''|'' \<or> c = CHR 0x0A \<or> c = CHR 0x0D then []
      else [c])"

definition Replace :: "string \<Rightarrow> string" where
  "Replace s = concat (map replace_byte s)"

text \<open>\<open>strings.IndexByte(s, '?')\<close> followed by \<open>s[:i]\<close> keeps the bytes before the
  first question mark.\<close>

definition cut_query :: "string \<Rightarrow> string" where
  "cut_query s = takeWhile (\<lambda>c. c \<noteq> CHR ''?'') s"

definition sanitizeFilename :: "string \<Rightarrow> string" where
  "sanitizeFilename s0 =
     (let s = cut_query s0 in
      if s = [] \<or> s = ''.'' \<or> s = ''/'' then ''file'' else Replace s)"

definition forbidden_bytes :: "char set" where
  "forbidden_bytes =
     {CHR '':'', CHR ''/'', CHR 0x5C, CHR ''*'', CHR ''?'', CHR 0x22, CHR ''<'', CHR ''>'',
      CHR ''|'', CHR 0x0A, CHR 0x0D}"


subsection \<open>Errors and machine integers\<close>

text \<open>
  Go errors are values. Each constructor stands for one family of errors the code can
  meet; \<open>error_message\<close> is \<open>err.Error()\<close>. Go's \<open>int\<close> is 64 bits wide here:
  \<open>wrap64\<close> is the two's complement wrap-around of an arithmetic result.
\<close>

datatype error =
    ErrEmptyLinks
  | ErrBadLink string
  | ErrHTTP int
  | ErrTransport string
  | ErrIO string
  | ErrContext string
  | ErrUnknown
  | ErrTooLong
  | ErrMarshal string
  | ErrParse string
  | ErrBadInt string

definition wrap64 :: "int \<Rightarrow> int" where
  "wrap64 x = (x + 2 ^ 63) mod 2 ^ 64 - 2 ^ 63"

subsection \<open>RecomputeStatus and NewTask (internal/core/types.go)\<close>

text \<open>
  The loop of \<open>RecomputeStatus\<close> carries the counters \<open>done\<close>, \<open>failed\<close>, \<open>pending\<close>,
  \<open>running\<close> and \<open>retries\<close>. The first four count list elements and cannot overflow;
  \<open>retries\<close> sums the attempt counters and wraps. The \<open>switch\<close> on the state has no
  default case: a file whose state is none of the four constants moves none of the four
  counters.
\<close>

fun count_files :: "FileItem list \<Rightarrow> int \<times> int \<times> int \<times> int \<times> int \<Rightarrow> int \<times> int \<times> int \<times> int \<times> int" where
  "count_files [] acc = acc"
| "count_files (f # fs) (nd, nf, np, nr, retries) =
     count_files fs
       (if State f = FileDone then (nd + 1, nf, np, nr, wrap64 (retries + Attempts f))
        else if State f = FileFailed then (nd, nf + 1, np, nr, wrap64 (retries + Attempts f))
        else if State f = FilePending then (nd, nf, np + 1, nr, wrap64 (retries + Attempts f))
        else if State f = FileRunning then (nd, nf, np, nr + 1, wrap64 (retries + Attempts f))
        else (nd, nf, np, nr, wrap64 (retries + Attempts f)))"

definition RecomputeStatus :: "Task \<Rightarrow> Task" where
  "RecomputeStatus t =
     (let total = int (length (Files t));
          (nd, nf, np, nr, retries) = count_files (Files t) (0, 0, 0, 0, 0)
      in t\<lparr>Total := total, Done := nd, Failed := nf, Pending := np, Running := nr,
           Retries := retries,
           Status := (if 0 < total \<and> nd = total then TaskComplete
                      else if 0 < total \<and> nf = total then TaskFailed
                      else if 0 < nr then TaskRunning
                      else if 0 < nd \<and> 0 < nf \<and> np = 0 \<and> nr = 0 then TaskPartial
                      else TaskPending)\<rparr>)"

text \<open>
  The census and the status rule in the words of the specification, to compare
  \<open>RecomputeStatus\<close> with: the number of files in a state, and the status derived from
  the files. "All DONE" and "all FAILED" speak of a task that has files.
  \<open>census_inv\<close> says that the aggregates are the census and the status the derived
  one; \<open>task_inv\<close> adds that the four counters add up to the total. \<open>known_files\<close>
  says that every file of a task is in one of the four states.
\<close>

definition count_state :: "FileState \<Rightarrow> FileItem list \<Rightarrow> int" where
  "count_state st fs = int (length (filter (\<lambda>f. State f = st) fs))"

definition spec_status :: "FileItem list \<Rightarrow> TaskStatus" where
  "spec_status fs =
     (if fs \<noteq> [] \<and> list_all (\<lambda>f. State f = FileDone) fs then TaskComplete
      else if fs \<noteq> [] \<and> list_all (\<lambda>f. State f = FileFailed) fs then TaskFailed
      else if list_ex (\<lambda>f. State f = FileRunning) fs then TaskRunning
      else if 0 < count_state FileDone fs \<and> 0 < count_state FileFailed fs
              \<and> count_state FilePending fs = 0 \<and> count_state FileRunning fs = 0
           then TaskPartial
      else TaskPending)"



definition known_state :: "FileState \<Rightarrow> bool" where
  "known_state st \<longleftrightarrow>
     st = FilePending \<or> st = FileRunning \<or> st = FileDone \<or> st = FileFailed"


text \<open>\<open>path.Base\<close> (standard library): the last element of a slash-separated path, after
  trailing slashes are removed; \<open>.\<close> for the empty path and \<open>/\<close> for a path of slashes
  only.\<close>

definition path_Base :: "string \<Rightarrow> string" where
  "path_Base p =
     (if p = [] then ''.''
      else let q = rev (dropWhile (\<lambda>c. c = CHR ''/'') (rev p));
               r = rev (takeWhile (\<lambda>c. c \<noteq> CHR ''/'') (rev q))
           in if r = [] then ''/'' else r)"

text \<open>The fields of \<open>url.URL\<close> the code reads. \<open>url.Parse\<close> itself is a parameter.\<close>

record parsed_url =
  Scheme :: string
  UrlHost :: string
  UrlPath :: string

fun build_files :: "(string \<Rightarrow> parsed_url option) \<Rightarrow> int \<Rightarrow> string list \<Rightarrow> error + FileItem list" where
  "build_files parse maxAttempts [] = Inr []"
| "build_files parse maxAttempts (link # links) =
     (case parse link of
        None \<Rightarrow> Inl (ErrBadLink link)
      | Some u \<Rightarrow>
          if Scheme u = [] \<or> UrlHost u = [] then Inl (ErrBadLink link)
          else
            let base = path_Base (UrlPath u);
                base = (if base = ''.'' \<or> base = ''/'' \<or> base = [] then ''file'' else base);
                item = \<lparr>URL = link, Filename = sanitizeFilename base, State = FilePending,
                        Error = [], Attempts = 0, MaxAttempts = maxAttempts,
                        BytesDownloaded = 0, SizeHint = 0, StartedAt = None,
                        FinishedAt = None, Host = UrlHost u\<rparr>
            in (case build_files parse maxAttempts links of
                  Inl e \<Rightarrow> Inl e
                | Inr items \<Rightarrow> Inr (item # items)))"

text \<open>\<open>new_id\<close> is the result of \<open>NewID()\<close> (clock and random bytes) and \<open>now\<close> the
  reading of \<open>time.Now()\<close>.\<close>

definition NewTask ::
  "(string \<Rightarrow> parsed_url option) \<Rightarrow> string \<Rightarrow> nat \<Rightarrow> string \<Rightarrow> string \<Rightarrow> string list \<Rightarrow> int
   \<Rightarrow> error + Task" where
  "NewTask parse new_id now label destDir links maxAttempts =
     (if links = [] then Inl ErrEmptyLinks
      else case build_files parse maxAttempts links of
             Inl e \<Rightarrow> Inl e
           | Inr items \<Rightarrow>
               Inr (RecomputeStatus
                      \<lparr>ID = new_id, Label = label, CreatedAt = now, DestDir = destDir,
                       Status = TaskPending, Files = items, Total = 0, Done = 0, Failed = 0,
                       Pending = 0, Running = 0, Retries = 0\<rparr>))"

subsection \<open>itoa and uniquePath (internal/app/app.go)\<close>

definition digit_char :: "int \<Rightarrow> char" where
  "digit_char d = char_of (48 + d)"

text \<open>The loop \<open>for n > 0 { i--; buf[i] = byte('0' + n%10); n /= 10 }\<close> fills the buffer
  from its end; the accumulator is the filled part \<open>buf[i:]\<close>.\<close>

function itoa_loop :: "int \<Rightarrow> string \<Rightarrow> string" where
  "itoa_loop n buf = (if 0 < n then itoa_loop (n div 10) (digit_char (n mod 10) # buf) else buf)"
  by pat_completeness auto
termination
  by (relation "measure (\<lambda>(n, buf). nat n)") auto

definition itoa :: "int \<Rightarrow> string" where
  "itoa n =
     (if n = 0 then ''0''
      else let neg = (n < 0);
               m = (if neg then wrap64 (- n) else n);
               buf = itoa_loop m []
           in if neg then CHR ''-'' # buf else buf)"

text \<open>\<open>filepath.Ext\<close> (standard library): the suffix of the path from the last dot of
  its last element, empty when that element has no dot.\<close>

definition Ext :: "string \<Rightarrow> string" where
  "Ext path =
     (let last_rev = takeWhile (\<lambda>c. c \<noteq> CHR ''/'') (rev path) in
      if CHR ''.'' \<in> set last_rev
      then CHR ''.'' # rev (takeWhile (\<lambda>c. c \<noteq> CHR ''.'') last_rev)
      else [])"

text \<open>
  \<open>exists p\<close> says that \<open>os.Stat(p)\<close> does not report \<open>os.ErrNotExist\<close>. The loop
  counter runs from 1 while it is below 10000.
\<close>

function uniquePath_loop :: "(string \<Rightarrow> bool) \<Rightarrow> string \<Rightarrow> string \<Rightarrow> string \<Rightarrow> int \<Rightarrow> string" where
  "uniquePath_loop exists base name ext i =
     (if i < 10000 then
        (let p = name @ ''-'' @ itoa i @ ext in
         if \<not> exists p then p else uniquePath_loop exists base name ext (i + 1))
      else base @ ''-dup'')"
  by pat_completeness auto
termination
  by (relation "measure (\<lambda>(exists, base, name, ext, i). nat (10000 - i))") auto

definition uniquePath :: "(string \<Rightarrow> bool) \<Rightarrow> string \<Rightarrow> string" where
  "uniquePath exists base =
     (if \<not> exists base then base
      else let ext = Ext base;
               name = take (length base - length ext) base
           in uniquePath_loop exists base name ext 1)"

text \<open>\<open>err.Error()\<close>. The messages of \<open>ErrEmptyLinks\<close>, \<open>ErrBadLink\<close> and \<open>ErrUnknown\<close>
  are Russian sentences in the source; an English rendering stands for them.\<close>

definition error_message :: "error \<Rightarrow> string" where
  "error_message e =
     (case e of
        ErrEmptyLinks \<Rightarrow> ''empty list of links''
      | ErrBadLink l \<Rightarrow> ''bad link: '' @ l
      | ErrHTTP c \<Rightarrow> ''http '' @ itoa c
      | ErrTransport m \<Rightarrow> m
      | ErrIO m \<Rightarrow> m
      | ErrContext m \<Rightarrow> m
      | ErrUnknown \<Rightarrow> ''unknown download error''
      | ErrTooLong \<Rightarrow> ''bufio.Scanner: token too long''
      | ErrMarshal m \<Rightarrow> ''marshal wal record: '' @ m
      | ErrParse m \<Rightarrow> ''parse '' @ m
      | ErrBadInt k \<Rightarrow> ''bad int for '' @ k)"

text \<open>
  The reference decimal numeral of a natural number, and the \<open>k\<close>-th suffixed
  candidate \<open>name-k.ext\<close> of a path, written from the policy's words so that the loop
  above can be compared with it.
\<close>

function decimal :: "nat \<Rightarrow> string" where
  "decimal n =
     (if n < 10 then [digit_char (int n)]
      else decimal (n div 10) @ [digit_char (int (n mod 10))])"
  by pat_completeness auto
termination
  by (relation "measure (\<lambda>n. n)") auto

definition candidate :: "string \<Rightarrow> nat \<Rightarrow> string" where
  "candidate base k =
     take (length base - length (Ext base)) base @ ''-'' @ decimal k @ Ext base"

subsection \<open>The platform\<close>

text \<open>
  What the code calls but does not define is a parameter: the standard library's URL
  parser, JSON codec and path functions, and the behaviour of the outside world during
  one iteration of the download loop (whether the request can be built, the directory
  and the staging file created, what the HTTP client returns, whether closing and
  renaming succeed, and whether the context is done before the backoff timer fires).
\<close>

datatype response = Response (status: int) (body_written: int) (copy_err: "error option")

record attempt_env =
  request_err :: "error option"
  mkdir_err :: "error option"
  create_err :: "error option"
  do_result :: "error + response"
  close_err :: "error option"
  rename_err :: "error option"
  ctx_done :: "error option"

record walRecord =
  RecType :: string
  RecTask :: "Task option"

record platform =
  url_Parse :: "string \<Rightarrow> parsed_url option"
  json_Marshal :: "walRecord \<Rightarrow> error + string"
  json_Unmarshal :: "string \<Rightarrow> walRecord option"
  filepath_Join :: "string \<Rightarrow> string \<Rightarrow> string"
  filepath_IsAbs :: "string \<Rightarrow> bool"
  filepath_Clean :: "string \<Rightarrow> string"
  http_script :: "nat \<Rightarrow> attempt_env"
  startup_err :: "error option"

text \<open>
  \<open>filepath.Clean\<close> and \<open>filepath.Join\<close> of the standard library on Unix, after
  their documentation, for the scenarios that depend on what joining does. \<open>Clean\<close>
  works on the elements between the slashes: empty elements and \<open>.\<close> are dropped; \<open>..\<close>
  removes the element before it, is dropped at the root, and is kept in a relative path
  that has nothing before it; the empty result is \<open>.\<close>. \<open>Join\<close> skips the leading
  empty elements, joins the others with slashes and cleans the result; it returns the
  empty string when every element is empty.
\<close>

fun split_slash :: "string \<Rightarrow> string list" where
  "split_slash [] = [[]]"
| "split_slash (c # cs) =
     (if c = CHR ''/'' then [] # split_slash cs
      else (case split_slash cs of [] \<Rightarrow> [[c]] | e # es \<Rightarrow> (c # e) # es))"

fun join_slash :: "string list \<Rightarrow> string" where
  "join_slash [] = []"
| "join_slash [e] = e"
| "join_slash (e # es) = e @ ''/'' @ join_slash es"

text \<open>\<open>clean_elems rooted acc es\<close>: \<open>acc\<close> holds the elements kept so far, the last one
  first.\<close>

fun clean_elems :: "bool \<Rightarrow> string list \<Rightarrow> string list \<Rightarrow> string list" where
  "clean_elems rooted acc [] = rev acc"
| "clean_elems rooted acc (e # es) =
     (if e = [] \<or> e = ''.'' then clean_elems rooted acc es
      else if e = ''..'' then
        (case acc of
           [] \<Rightarrow> clean_elems rooted (if rooted then [] else [''..'']) es
         | p # ps \<Rightarrow>
             if p = ''..'' then clean_elems rooted (''..'' # acc) es
             else clean_elems rooted ps es)
      else clean_elems rooted (e # acc) es)"

definition Clean :: "string \<Rightarrow> string" where
  "Clean p =
     (let rooted = (p \<noteq> [] \<and> hd p = CHR ''/'');
          body = join_slash (clean_elems rooted [] (split_slash p))
      in if rooted then CHR ''/'' # body
         else if body = [] then ''.'' else body)"

definition Join :: "string list \<Rightarrow> string" where
  "Join elems =
     (let es = dropWhile (\<lambda>e. e = []) elems in
      if es = [] then [] else Clean (join_slash es))"

text \<open>The mutable world: the paths present on disk, the number of download-loop
  iterations started so far (the index into \<open>http_script\<close>) and the clock.\<close>

record world =
  disk :: "string set"
  reqs :: nat
  clock :: nat

subsection \<open>The journal (internal/store/wal.go)\<close>

text \<open>
  The journal is the content of \<open>tasks.wal\<close>. \<open>AppendTask\<close> returns its error and the
  new content; the write and the flush themselves are taken to succeed.
\<close>

definition AppendTask :: "platform \<Rightarrow> Task \<Rightarrow> string \<Rightarrow> error option \<times> string" where
  "AppendTask P task content =
     (case json_Marshal P \<lparr>RecType = ''upsert_task'', RecTask = Some task\<rparr> of
        Inl e \<Rightarrow> (Some (ErrMarshal (error_message e)), content)
      | Inr data \<Rightarrow> (None, content @ data @ [CHR 0x0A]))"








subsection \<open>Fetch (internal/downloader/downloader.go)\<close>

text \<open>
  File operations on the world. \<open>os.Create\<close> makes the path present, \<open>os.Remove\<close>
  makes it absent, \<open>os.Rename\<close> moves it.
\<close>

definition os_Create :: "string \<Rightarrow> world \<Rightarrow> world" where
  "os_Create p w = w\<lparr>disk := insert p (disk w)\<rparr>"

definition os_Remove :: "string \<Rightarrow> world \<Rightarrow> world" where
  "os_Remove p w = w\<lparr>disk := disk w - {p}\<rparr>"

definition os_Rename :: "string \<Rightarrow> string \<Rightarrow> world \<Rightarrow> world" where
  "os_Rename src dst w = w\<lparr>disk := insert dst (disk w - {src})\<rparr>"

text \<open>
  One iteration of the attempt loop either returns from \<open>Fetch\<close> or continues with the
  next iteration, having recorded \<open>lastErr\<close>. The \<open>select\<close> between the backoff timer
  and \<open>ctx.Done()\<close> is \<open>wait_backoff\<close>: the context's error is returned when the
  context wins. The host limiter only orders concurrent calls and is left out.
\<close>

datatype outcome = Return "error + int" | Continue error

definition wait_backoff :: "attempt_env \<Rightarrow> error \<Rightarrow> outcome" where
  "wait_backoff ae lastErr =
     (case ctx_done ae of Some ce \<Rightarrow> Return (Inl ce) | None \<Rightarrow> Continue lastErr)"

definition attempt :: "platform \<Rightarrow> string \<Rightarrow> world \<Rightarrow> outcome \<times> world" where
  "attempt P destPath w0 =
     (let ae = http_script P (reqs w0);
          w = w0\<lparr>reqs := reqs w0 + 1\<rparr>;
          tmpPath = destPath @ ''.part''
      in case request_err ae of
           Some e \<Rightarrow> (Return (Inl e), w)
         | None \<Rightarrow>
            (case mkdir_err ae of
               Some e \<Rightarrow> (Return (Inl e), w)
             | None \<Rightarrow>
                (case create_err ae of
                   Some e \<Rightarrow> (Return (Inl e), w)
                 | None \<Rightarrow>
                    (let w1 = os_Create tmpPath w in
                     case do_result ae of
                       Inl e \<Rightarrow> (wait_backoff ae e, w1)
                     | Inr resp \<Rightarrow>
                         if status resp < 200 \<or> 300 \<le> status resp then
                           (let w2 = os_Remove tmpPath w1;
                                lastErr = ErrHTTP (status resp)
                            in if 500 \<le> status resp \<and> status resp < 600
                               then (wait_backoff ae lastErr, w2)
                               else (Return (Inl lastErr), w2))
                         else
                           (case copy_err resp of
                              Some e \<Rightarrow> (wait_backoff ae e, os_Remove tmpPath w1)
                            | None \<Rightarrow>
                               (case close_err ae of
                                  Some e \<Rightarrow> (wait_backoff ae e, os_Remove tmpPath w1)
                                | None \<Rightarrow>
                                   (case rename_err ae of
                                      Some e \<Rightarrow> (wait_backoff ae e, os_Remove tmpPath w1)
                                    | None \<Rightarrow>
                                        (Return (Inr (body_written resp)),
                                         os_Rename tmpPath destPath w1))))))))"

text \<open>\<open>Fetch_loop P destPath n lastErr w\<close> runs the remaining \<open>n\<close> iterations.\<close>

fun Fetch_loop :: "platform \<Rightarrow> string \<Rightarrow> nat \<Rightarrow> error option \<Rightarrow> world \<Rightarrow> (error + int) \<times> world" where
  "Fetch_loop P destPath 0 lastErr w =
     (Inl (case lastErr of None \<Rightarrow> ErrUnknown | Some e \<Rightarrow> e), w)"
| "Fetch_loop P destPath (Suc n) lastErr w =
     (case attempt P destPath w of
        (Return r, w') \<Rightarrow> (r, w')
      | (Continue e, w') \<Rightarrow> Fetch_loop P destPath n (Some e) w')"

definition Fetch :: "platform \<Rightarrow> int \<Rightarrow> string \<Rightarrow> string \<Rightarrow> world \<Rightarrow> (error + int) \<times> world" where
  "Fetch P retries rawURL destPath w =
     (case url_Parse P rawURL of
        None \<Rightarrow> (Inl (ErrParse rawURL), w)
      | Some u \<Rightarrow> Fetch_loop P destPath (nat (max 1 retries)) None w)"

subsection \<open>The coordinator (internal/app/app.go)\<close>

record Config =
  DownloadDir :: string
  Workers :: int
  ConfRetries :: int

record Job =
  TaskID :: string
  FileIndex :: int
  JobHost :: string

text \<open>
  The application state: the configuration, the journal's content, the task registry,
  the jobs sent to the dispatcher and not yet taken by a worker (in arrival order), the
  number of workers started, the trace, and the world. The trace lists, in the order in
  which the code performs them, the insertions into the task map (with the task as it
  is inserted), the jobs sent to the dispatcher's intake, and the starts of workers
  (\<open>go a.workerLoop(i)\<close>).
\<close>

datatype event = Registered Task | Enqueued Job | WorkerStarted nat

record App =
  Conf :: Config
  wal :: string
  tasks :: "string \<rightharpoonup> Task"
  queue :: "Job list"
  workers :: nat
  events :: "event list"
  env :: world

definition journal :: "platform \<Rightarrow> Task \<Rightarrow> App \<Rightarrow> App" where
  "journal P t a = a\<lparr>wal := snd (AppendTask P t (wal a))\<rparr>"

fun pending_jobs :: "string \<Rightarrow> int \<Rightarrow> FileItem list \<Rightarrow> Job list" where
  "pending_jobs tid i [] = []"
| "pending_jobs tid i (f # fs) =
     (if State f = FilePending then [\<lparr>TaskID = tid, FileIndex = i, JobHost = Host f\<rparr>] else [])
     @ pending_jobs tid (i + 1) fs"

text \<open>Recovery. \<open>ks\<close> is the order in which Go's \<open>range\<close> visits the keys of the
  recovered map.\<close>

definition reset_running :: "FileItem \<Rightarrow> FileItem" where
  "reset_running f =
     (if State f = FileRunning
      then f\<lparr>State := FilePending, Error := [], StartedAt := None, FinishedAt := None\<rparr>
      else f)"

definition recover_task :: "Task \<Rightarrow> Task" where
  "recover_task t = RecomputeStatus (t\<lparr>Files := map reset_running (Files t)\<rparr>)"






definition AddTask :: "platform \<Rightarrow> Task \<Rightarrow> App \<Rightarrow> App" where
  "AddTask P t a =
     (let a1 = a\<lparr>tasks := (tasks a)(ID t \<mapsto> t), events := events a @ [Registered t]\<rparr>;
          a2 = journal P t a1;
          t' = (if \<not> filepath_IsAbs P (DestDir t)
                then t\<lparr>DestDir := filepath_Clean P (DestDir t)\<rparr> else t);
          a3 = a2\<lparr>tasks := (tasks a2)(ID t \<mapsto> t')\<rparr>
      in a3\<lparr>queue := queue a3 @ pending_jobs (ID t') 0 (Files t'),
            events := events a3 @ map Enqueued (pending_jobs (ID t') 0 (Files t'))\<rparr>)"

text \<open>The three transitions a worker applies to a file under the lock.\<close>

definition start_phase :: "nat \<Rightarrow> nat \<Rightarrow> Task \<Rightarrow> Task" where
  "start_phase now i t =
     RecomputeStatus
       (t\<lparr>Files := (Files t)[i := (Files t ! i)\<lparr>State := FileRunning, Error := [],
                                                 StartedAt := Some now\<rparr>]\<rparr>)"

definition completion_phase :: "nat \<Rightarrow> error + int \<Rightarrow> nat \<Rightarrow> Task \<Rightarrow> Task" where
  "completion_phase now2 res i t =
     (let fi = (Files t ! i)\<lparr>Attempts := wrap64 (Attempts (Files t ! i) + 1)\<rparr>;
          fi' = (case res of
                   Inl err \<Rightarrow> fi\<lparr>State := FileFailed, Error := error_message err,
                                 FinishedAt := Some now2\<rparr>
                 | Inr written \<Rightarrow> fi\<lparr>State := FileDone, Error := [],
                                     BytesDownloaded := written, FinishedAt := Some now2\<rparr>)
      in RecomputeStatus (t\<lparr>Files := (Files t)[i := fi']\<rparr>))"

definition retry_reset :: "nat \<Rightarrow> Task \<Rightarrow> Task" where
  "retry_reset i t =
     RecomputeStatus
       (t\<lparr>Files := (Files t)[i := (Files t ! i)\<lparr>State := FilePending, Error := [],
                                                 StartedAt := None, FinishedAt := None\<rparr>]\<rparr>)"

text \<open>
  The body of the worker's loop for one job. Jobs are processed one at a time: the
  model is one worker, or several whose jobs do not overlap in time.
\<close>

definition worker_step :: "platform \<Rightarrow> Job \<Rightarrow> App \<Rightarrow> App" where
  "worker_step P job a =
     (case tasks a (TaskID job) of
        None \<Rightarrow> a
      | Some t \<Rightarrow>
          if FileIndex job < 0 \<or> int (length (Files t)) \<le> FileIndex job then a
          else
            let i = nat (FileIndex job) in
            if State (Files t ! i) \<noteq> FilePending then a
            else
              let now = clock (env a);
                  t1 = start_phase now i t;
                  a1 = a\<lparr>tasks := (tasks a)(TaskID job \<mapsto> t1),
                         env := (env a)\<lparr>clock := now + 1\<rparr>\<rparr>;
                  a2 = journal P t1 a1;
                  fi = Files t1 ! i;
                  destDir = (if DestDir t1 = []
                             then filepath_Join P (DownloadDir (Conf a2)) (ID t1)
                             else DestDir t1);
                  destPath = uniquePath (\<lambda>p. p \<in> disk (env a2))
                               (filepath_Join P destDir (Filename fi));
                  (res, w) = Fetch P (ConfRetries (Conf a2)) (URL fi) destPath (env a2);
                  now2 = clock w;
                  t2 = completion_phase now2 res i t1;
                  a3 = a2\<lparr>tasks := (tasks a2)(TaskID job \<mapsto> t2),
                          env := w\<lparr>clock := now2 + 1\<rparr>\<rparr>;
                  a4 = journal P t2 a3;
                  fi2 = Files t2 ! i
              in if isl res \<and> Attempts fi2 < MaxAttempts fi2 then
                   (let t3 = retry_reset i t2;
                        a5 = a4\<lparr>tasks := (tasks a4)(TaskID job \<mapsto> t3)\<rparr>;
                        a6 = journal P t3 a5
                    in a6\<lparr>queue := queue a6 @ [\<lparr>TaskID = TaskID job,
                                                 FileIndex = FileIndex job,
                                                 JobHost = Host fi2\<rparr>],
                          events := events a6 @ [Enqueued \<lparr>TaskID = TaskID job,
                                                            FileIndex = FileIndex job,
                                                            JobHost = Host fi2\<rparr>]\<rparr>)
                 else a4)"

text \<open>
  \<open>workerLoop\<close> takes jobs until none is left. The fuel bounds the number of jobs
  taken; \<open>None\<close> means the fuel ran out with jobs still queued.
\<close>

fun workerLoop :: "platform \<Rightarrow> nat \<Rightarrow> App \<Rightarrow> App option" where
  "workerLoop P 0 a = (if queue a = [] then Some a else None)"
| "workerLoop P (Suc n) a =
     (case queue a of
        [] \<Rightarrow> Some a
      | job # rest \<Rightarrow> workerLoop P n (worker_step P job (a\<lparr>queue := rest\<rparr>)))"

subsection \<open>The HTTP adapter (internal/http/api.go)\<close>

text \<open>\<open>strconv.Atoi\<close> (standard library): an optional sign and at least one decimal
  digit, and a value that fits 64 bits; \<open>None\<close> is its error.\<close>

definition is_digit :: "char \<Rightarrow> bool" where
  "is_digit c \<longleftrightarrow> 48 \<le> (of_char c :: nat) \<and> (of_char c :: nat) \<le> 57"

definition digits_value :: "string \<Rightarrow> int" where
  "digits_value ds = fold (\<lambda>c acc. acc * 10 + (of_char c - 48)) ds 0"

definition Atoi :: "string \<Rightarrow> int option" where
  "Atoi s =
     (case s of
        [] \<Rightarrow> None
      | c # cs \<Rightarrow>
          let neg = (c = CHR ''-'');
              ds = (if c = CHR ''-'' \<or> c = CHR ''+'' then cs else s)
          in if ds = [] \<or> \<not> list_all is_digit ds then None
             else let n = (if neg then - digits_value ds else digits_value ds)
                  in if n < - (2 ^ 63) \<or> 2 ^ 63 - 1 < n then None else Some n)"

text \<open>\<open>r.URL.Query().Get(key)\<close>: the first value of the key, empty when absent.\<close>

definition query_Get :: "(string \<times> string) list \<Rightarrow> string \<Rightarrow> string" where
  "query_Get q key = (case map_of q key of None \<Rightarrow> [] | Some v \<Rightarrow> v)"

definition positiveInt :: "(string \<times> string) list \<Rightarrow> string \<Rightarrow> int \<Rightarrow> int \<times> error option" where
  "positiveInt q key def =
     (let s = query_Get q key in
      if s \<noteq> [] then
        (case Atoi s of
           None \<Rightarrow> (0, Some (ErrBadInt key))
         | Some n \<Rightarrow> if n < 0 then (0, Some (ErrBadInt key)) else (n, None))
      else (def, None))"

text \<open>
  The \<open>GET\<close> branch of the \<open>/tasks\<close> handler, given the query and the listed tasks:
  the status code and the tasks written. A slice expression with bounds out of order
  panics, and \<open>withRecover\<close> answers 500.
\<close>

definition tasks_get :: "(string \<times> string) list \<Rightarrow> Task list \<Rightarrow> int \<times> Task list" where
  "tasks_get q ts =
     (let limit = fst (positiveInt q ''limit'' 100);
          offset = fst (positiveInt q ''offset'' 0);
          n = int (length ts);
          offset = (if n < offset then n else offset);
          end = wrap64 (offset + limit);
          end = (if n < end then n else end)
      in if offset < 0 \<or> end < offset then (500, [])
         else (200, take (nat (end - offset)) (drop (nat offset) ts)))"

text \<open>The \<open>POST\<close> branch of the \<open>/tasks\<close> handler after the body has been decoded.\<close>

definition tasks_post ::
  "platform \<Rightarrow> string \<Rightarrow> nat \<Rightarrow> string \<Rightarrow> string \<Rightarrow> string list \<Rightarrow> App \<Rightarrow> int \<times> App" where
  "tasks_post P new_id now label destDir links a =
     (if links = [] then (400, a)
      else case NewTask (url_Parse P) new_id now label destDir links (ConfRetries (Conf a)) of
             Inl e \<Rightarrow> (400, a)
           | Inr task \<Rightarrow>
               let task' = (if DestDir task = []
                            then task\<lparr>DestDir := filepath_Join P (DownloadDir (Conf a)) (ID task)\<rparr>
                            else task\<lparr>DestDir := filepath_Join P (DownloadDir (Conf a)) (DestDir task)\<rparr>)
               in (200, AddTask P task' a))"

subsection \<open>Scenarios\<close>

text \<open>
  An iteration of the download loop in which nothing fails locally and the context is
  not cancelled, so that its course is decided by what the HTTP client returns; and the
  conditions on the \<open>n\<close>-th iteration that the scenarios below speak of: the server
  answers with status \<open>c\<close>, and the server delivers a body of \<open>b\<close> bytes that is
  stored and published.
\<close>

definition ok_attempt :: "error + response \<Rightarrow> attempt_env" where
  "ok_attempt r =
     \<lparr>request_err = None, mkdir_err = None, create_err = None, do_result = r,
      close_err = None, rename_err = None, ctx_done = None\<rparr>"

definition responds :: "platform \<Rightarrow> nat \<Rightarrow> int \<Rightarrow> bool" where
  "responds P n c \<longleftrightarrow>
     request_err (http_script P n) = None \<and> mkdir_err (http_script P n) = None \<and>
     create_err (http_script P n) = None \<and> ctx_done (http_script P n) = None \<and>
     (case do_result (http_script P n) of Inl e \<Rightarrow> False | Inr resp \<Rightarrow> status resp = c)"


text \<open>A platform for examples: every URL parses to the same parts, the JSON codec is
  a stub, paths are joined with a slash, and the script is given.\<close>

definition example_platform :: "(nat \<Rightarrow> attempt_env) \<Rightarrow> platform" where
  "example_platform script =
     \<lparr>url_Parse = (\<lambda>s. Some \<lparr>Scheme = ''http'', UrlHost = ''fake'', UrlPath = ''/a.bin''\<rparr>),
      json_Marshal = (\<lambda>r. Inr []),
      json_Unmarshal = (\<lambda>l. None),
      filepath_Join = (\<lambda>d f. d @ ''/'' @ f),
      filepath_IsAbs = (\<lambda>p. False),
      filepath_Clean = (\<lambda>p. p),
      http_script = script,
      startup_err = None\<rparr>"



text \<open>Example snapshots, and two example codecs: one that writes the id and the label
  of a snapshot and reads three lines back, and one whose lines are as long as the
  scanner's limit.\<close>

definition example_task :: "string \<Rightarrow> string \<Rightarrow> Task" where
  "example_task tid label =
     \<lparr>ID = tid, Label = label, CreatedAt = 0, DestDir = [], Status = TaskPending,
      Files = [], Total = 0, Done = 0, Failed = 0, Pending = 0, Running = 0, Retries = 0\<rparr>"




text \<open>
  A journal left by a crash: task \<open>T1\<close> with its file DONE, task \<open>T2\<close> with one
  file RUNNING and one PENDING. The codec reads the two lines \<open>T1\<close> and \<open>T2\<close>.
\<close>

definition example_file :: "string \<Rightarrow> FileState \<Rightarrow> FileItem" where
  "example_file name st =
     \<lparr>URL = ''http://fake/'' @ name, Filename = name, State = st, Error = [], Attempts = 0,
      MaxAttempts = 3, BytesDownloaded = 0, SizeHint = 0,
      StartedAt = (if st = FilePending then None else Some 5),
      FinishedAt = (if st = FileDone then Some 6 else None), Host = ''fake''\<rparr>"



text \<open>A task as a journal record can hold it: one file DONE and one in a state that
  is none of the four constants.\<close>

definition foreign_task :: Task where
  "foreign_task = (example_task ''T3'' [])\<lparr>Files := [example_file ''a'' FileDone,
                                                      example_file ''b'' ''PAUSED'']\<rparr>"





text \<open>
  A freshly started application with \<open>retries = r\<close>, a server that answers 404 to
  every request, and one that answers 500 twice and then delivers 7 bytes.
\<close>

definition fresh_app :: "int \<Rightarrow> App" where
  "fresh_app r =
     \<lparr>Conf = \<lparr>DownloadDir = ''downloads'', Workers = 1, ConfRetries = r\<rparr>, wal = [],
      tasks = Map.empty, queue = [], workers = 1, events = [WorkerStarted 0],
      env = \<lparr>disk = {}, reqs = 0, clock = 0\<rparr>\<rparr>"

definition always_404 :: platform where
  "always_404 = example_platform (\<lambda>n. ok_attempt (Inr (Response 404 0 None)))"


text \<open>The state and the attempt counter of each file of a task of the registry, for
  reading off the outcome of a scenario.\<close>

definition file_states :: "App \<Rightarrow> string \<Rightarrow> (FileState \<times> int) list" where
  "file_states a tid =
     (case tasks a tid of None \<Rightarrow> [] | Some t \<Rightarrow> map (\<lambda>f. (State f, Attempts f)) (Files t))"

definition task_status :: "App \<Rightarrow> string \<Rightarrow> TaskStatus option" where
  "task_status a tid = map_option Status (tasks a tid)"

text \<open>The application after one URL has been submitted to a fresh one, and the job
  that the submission sends.\<close>

definition submitted :: "platform \<Rightarrow> int \<Rightarrow> App" where
  "submitted P r = snd (tasks_post P ''t1'' 0 ''x'' ''d'' [''http://fake/a.bin''] (fresh_app r))"

definition first_job :: Job where
  "first_job = \<lparr>TaskID = ''t1'', FileIndex = 0, JobHost = ''fake''\<rparr>"

text \<open>
  A URL whose path ends in \<open>..\<close>, on a platform that joins and cleans paths as Unix
  does and a server that delivers 7 bytes; the download directory exists, and the task is
  submitted with the destination \<open>d\<close>.
\<close>

definition traversal_platform :: platform where
  "traversal_platform =
     (example_platform (\<lambda>n. ok_attempt (Inr (Response 200 7 None))))
       \<lparr>url_Parse := (\<lambda>s. Some \<lparr>Scheme = ''http'', UrlHost = ''fake'', UrlPath = ''/a/..''\<rparr>),
        filepath_Join := (\<lambda>d f. Join [d, f]),
        filepath_Clean := Clean\<rparr>"

definition traversal_app :: App where
  "traversal_app =
     snd (tasks_post traversal_platform ''t1'' 0 ''x'' ''d'' [''http://fake/a/..'']
            ((fresh_app 3)\<lparr>env := \<lparr>disk = {''downloads''}, reqs = 0, clock = 0\<rparr>\<rparr>))"

text \<open>What a run of the workers leaves behind for a task: the states and attempt
  counters of its files, its status, the jobs still queued and the number of HTTP
  requests made.\<close>

definition run_outcome ::
  "App option \<Rightarrow> string \<Rightarrow> ((FileState \<times> int) list \<times> TaskStatus option \<times> Job list \<times> nat) option" where
  "run_outcome r tid =
     map_option (\<lambda>a. (file_states a tid, task_status a tid, queue a, reqs (env a))) r"

section \<open>Properties\<close>

subsection \<open>sanitizeFilename\<close>

lemma replace_byte_clean: "set (replace_byte c) \<inter> forbidden_bytes = {}"
  by (auto simp: replace_byte_def forbidden_bytes_def)

lemma Replace_clean: "set (Replace s) \<inter> forbidden_bytes = {}"
  using replace_byte_clean by (induction s) (auto simp: Replace_def)


lemma Replace_clean_id: "set s \<inter> forbidden_bytes = {} \<Longrightarrow> Replace s = s"
  by (induction s) (auto simp: Replace_def replace_byte_def forbidden_bytes_def)

lemma cut_query_clean_id: "set s \<inter> forbidden_bytes = {} \<Longrightarrow> cut_query s = s"
  by (induction s) (auto simp: cut_query_def forbidden_bytes_def)

text \<open>Sanitizing twice changes nothing as long as the first result is neither empty
  nor a single dot.\<close>

lemma sanitizeFilename_idempotent_unless_empty:
  assumes "sanitizeFilename s \<noteq> []" "sanitizeFilename s \<noteq> ''.''"
  shows "sanitizeFilename (sanitizeFilename s) = sanitizeFilename s"
proof -
  let ?r = "sanitizeFilename s"
  have clean: "set ?r \<inter> forbidden_bytes = {}"
    using Replace_clean [of "cut_query s"]
    by (simp add: sanitizeFilename_def Let_def forbidden_bytes_def)
  then have "CHR ''/'' \<notin> set ?r" by (auto simp: forbidden_bytes_def)
  then have "?r \<noteq> ''/''" by auto
  then show ?thesis
    using assms clean
    by (simp add: sanitizeFilename_def [of ?r] Let_def cut_query_clean_id Replace_clean_id)
qed

text \<open>
  Claim C7 says that \<open>sanitizeFilename\<close> is idempotent. The guard that turns an empty
  name or \<open>.\<close> into \<open>file\<close> runs before the bytes are removed, so a name made of
  removed bytes only comes out empty, and sanitizing that result again gives \<open>file\<close>.
  Such a name reaches the function: \<open>path.Base\<close> of the URL path \<open>/*\<close> is \<open>*\<close>.
\<close>

theorem sanitizeFilename_not_idempotent:
  "sanitizeFilename ''*'' = [] \<and> sanitizeFilename (sanitizeFilename ''*'') = ''file''"
  by (simp add: sanitizeFilename_def cut_query_def Replace_def replace_byte_def)

lemma sanitizeFilename_dot:
  "sanitizeFilename ''<.'' = ''.'' \<and> sanitizeFilename ''.'' = ''file''"
  by (simp add: sanitizeFilename_def cut_query_def Replace_def replace_byte_def)

lemma path_Base_star: "path_Base ''/*'' = ''*''"
  by (simp add: path_Base_def)

subsection \<open>uniquePath\<close>

declare itoa_loop.simps [simp del] uniquePath_loop.simps [simp del] decimal.simps [simp del]

lemma itoa_loop_decimal: "0 < n \<Longrightarrow> itoa_loop (int n) buf = decimal n @ buf"
proof (induction n arbitrary: buf rule: decimal.induct)
  case (1 n)
  show ?case
  proof (cases "n < 10")
    case True
    with "1.prems" show ?thesis
      by (simp add: itoa_loop.simps [of "int n"] itoa_loop.simps [of 0] decimal.simps [of n])
  next
    case False
    then have pos: "0 < n div 10" by simp
    have "itoa_loop (int n) buf = itoa_loop (int (n div 10)) (digit_char (int (n mod 10)) # buf)"
      using "1.prems" by (simp add: itoa_loop.simps [of "int n"] zdiv_int zmod_int)
    also have "\<dots> = decimal (n div 10) @ (digit_char (int (n mod 10)) # buf)"
      using "1.IH" [OF False pos] .
    finally show ?thesis using False by (simp add: decimal.simps [of n])
  qed
qed

lemma itoa_decimal: "0 < n \<Longrightarrow> itoa (int n) = decimal n"
  by (simp add: itoa_def itoa_loop_decimal)

lemma uniquePath_loop_free:
  "i \<le> k \<Longrightarrow> k < 10000 \<Longrightarrow> \<not> exists (name @ ''-'' @ itoa (int k) @ ext) \<Longrightarrow>
   (\<forall>j. i \<le> j \<and> j < k \<longrightarrow> exists (name @ ''-'' @ itoa (int j) @ ext)) \<Longrightarrow>
   uniquePath_loop exists base name ext (int i) = name @ ''-'' @ itoa (int k) @ ext"
proof (induction "k - i" arbitrary: i)
  case 0
  then have "i = k" by simp
  with 0 show ?case by (simp add: uniquePath_loop.simps [of _ _ _ _ "int k"])
next
  case (Suc d)
  then have lt: "i < k" by simp
  with Suc.prems have ex: "exists (name @ ''-'' @ itoa (int i) @ ext)" by simp
  have "uniquePath_loop exists base name ext (int (Suc i)) = name @ ''-'' @ itoa (int k) @ ext"
    using Suc.hyps Suc.prems lt by (intro Suc.hyps(1)) auto
  moreover have "int (Suc i) = int i + 1" by simp
  ultimately show ?case
    using ex lt Suc.prems(2) by (simp add: uniquePath_loop.simps [of _ _ _ _ "int i"] del: of_nat_Suc)
qed

lemma uniquePath_loop_taken:
  "i \<le> 10000 \<Longrightarrow> (\<forall>j. i \<le> j \<and> j < 10000 \<longrightarrow> exists (name @ ''-'' @ itoa (int j) @ ext)) \<Longrightarrow>
   uniquePath_loop exists base name ext (int i) = base @ ''-dup''"
proof (induction "10000 - i" arbitrary: i)
  case 0
  then have "i = 10000" by simp
  then show ?case by (simp add: uniquePath_loop.simps [of _ _ _ _ "10000"])
next
  case (Suc d)
  then have lt: "i < 10000" by simp
  with Suc.prems have ex: "exists (name @ ''-'' @ itoa (int i) @ ext)" by simp
  have "uniquePath_loop exists base name ext (int (Suc i)) = base @ ''-dup''"
    using Suc.hyps Suc.prems lt by (intro Suc.hyps(1)) auto
  moreover have "int (Suc i) = int i + 1" by simp
  ultimately show ?case
    using ex lt by (simp add: uniquePath_loop.simps [of _ _ _ _ "int i"] del: of_nat_Suc)
qed

lemma candidate_examples:
  "candidate ''a/b.txt'' 1 = ''a/b-1.txt''"
  "candidate ''a/b.txt'' 2 = ''a/b-2.txt''"
  by code_simp+

text \<open>
  Claim C9. \<open>uniquePath\<close> returns the candidate path when nothing exists there;
  otherwise the first of \<open>name-1.ext\<close>, \<open>name-2.ext\<close>, ..., \<open>name-9999.ext\<close> at which
  nothing exists; and the path followed by \<open>-dup\<close> when all 9999 are taken.
\<close>

theorem uniquePath_policy:
  "(\<not> exists base \<longrightarrow> uniquePath exists base = base) \<and>
   (exists base \<and> 1 \<le> k \<and> k \<le> 9999 \<and> \<not> exists (candidate base k) \<and>
      (\<forall>j. 1 \<le> j \<and> j < k \<longrightarrow> exists (candidate base j))
      \<longrightarrow> uniquePath exists base = candidate base k) \<and>
   (exists base \<and> (\<forall>j. 1 \<le> j \<and> j \<le> 9999 \<longrightarrow> exists (candidate base j))
      \<longrightarrow> uniquePath exists base = base @ ''-dup'')"
proof (intro conjI impI)
  assume "\<not> exists base"
  then show "uniquePath exists base = base" by (simp add: uniquePath_def)
next
  let ?name = "take (length base - length (Ext base)) base"
  assume a: "exists base \<and> 1 \<le> k \<and> k \<le> 9999 \<and> \<not> exists (candidate base k) \<and>
      (\<forall>j. 1 \<le> j \<and> j < k \<longrightarrow> exists (candidate base j))"
  have "uniquePath_loop exists base ?name (Ext base) (int 1) = ?name @ ''-'' @ itoa (int k) @ Ext base"
    using a by (intro uniquePath_loop_free) (auto simp: candidate_def itoa_decimal)
  with a show "uniquePath exists base = candidate base k"
    by (simp add: uniquePath_def Let_def candidate_def itoa_decimal)
next
  let ?name = "take (length base - length (Ext base)) base"
  assume a: "exists base \<and> (\<forall>j. 1 \<le> j \<and> j \<le> 9999 \<longrightarrow> exists (candidate base j))"
  have "uniquePath_loop exists base ?name (Ext base) (int 1) = base @ ''-dup''"
    using a by (intro uniquePath_loop_taken) (auto simp: candidate_def itoa_decimal)
  with a show "uniquePath exists base = base @ ''-dup''"
    by (simp add: uniquePath_def Let_def)
qed

theorem uniquePath_policy_witness:
  "uniquePath (\<lambda>p. False) ''a/b.txt'' = ''a/b.txt'' \<and>
   uniquePath (\<lambda>p. p = ''a/b.txt'' \<or> p = ''a/b-1.txt'') ''a/b.txt'' = ''a/b-2.txt'' \<and>
   uniquePath (\<lambda>p. True) ''a/b.txt'' = ''a/b.txt-dup''"
proof -
  have j1: "\<And>j::nat. 1 \<le> j \<and> j < 2 \<Longrightarrow> j = 1" by arith
  have h: "\<forall>j::nat. 1 \<le> j \<and> j < 2 \<longrightarrow>
      candidate ''a/b.txt'' j = ''a/b.txt'' \<or> candidate ''a/b.txt'' j = ''a/b-1.txt''"
    using j1 candidate_examples by blast
  show ?thesis
    using uniquePath_policy [of "\<lambda>p. False" "''a/b.txt''" 1]
      uniquePath_policy [of "\<lambda>p. p = ''a/b.txt'' \<or> p = ''a/b-1.txt''" "''a/b.txt''" 2]
      uniquePath_policy [of "\<lambda>p. True" "''a/b.txt''" 1] h
    by (simp add: candidate_examples)
qed

subsection \<open>Aggregates and derived status\<close>

lemma FileState_distinct [simp]:
  "FilePending \<noteq> FileRunning" "FilePending \<noteq> FileDone" "FilePending \<noteq> FileFailed"
  "FileRunning \<noteq> FilePending" "FileRunning \<noteq> FileDone" "FileRunning \<noteq> FileFailed"
  "FileDone \<noteq> FilePending" "FileDone \<noteq> FileRunning" "FileDone \<noteq> FileFailed"
  "FileFailed \<noteq> FilePending" "FileFailed \<noteq> FileRunning" "FileFailed \<noteq> FileDone"
  by (simp_all add: FilePending_def FileRunning_def FileDone_def FileFailed_def)

lemma known_state_simps [simp]:
  "known_state FilePending" "known_state FileRunning" "known_state FileDone"
  "known_state FileFailed"
  by (simp_all add: known_state_def)

lemma count_files_proj:
  "\<exists>y. count_files fs (d, f, p, r, x) =
     (d + count_state FileDone fs, f + count_state FileFailed fs,
      p + count_state FilePending fs, r + count_state FileRunning fs, y)"
proof (induction fs arbitrary: d f p r x)
  case Nil
  then show ?case by (simp add: count_state_def)
next
  case (Cons a fs)
  consider (dn) "State a = FileDone" | (fl) "State a = FileFailed" | (pe) "State a = FilePending"
    | (ru) "State a = FileRunning"
    | (other) "State a \<noteq> FileDone" "State a \<noteq> FileFailed" "State a \<noteq> FilePending"
        "State a \<noteq> FileRunning"
    by blast
  then show ?case
  proof cases
    case pe
    with Cons [of d f "p + 1" r "wrap64 (x + Attempts a)"] show ?thesis
      by (simp add: count_state_def add.assoc)
  next
    case ru
    with Cons [of d f p "r + 1" "wrap64 (x + Attempts a)"] show ?thesis
      by (simp add: count_state_def add.assoc)
  next
    case dn
    with Cons [of "d + 1" f p r "wrap64 (x + Attempts a)"] show ?thesis
      by (simp add: count_state_def add.assoc)
  next
    case fl
    with Cons [of d "f + 1" p r "wrap64 (x + Attempts a)"] show ?thesis
      by (simp add: count_state_def add.assoc)
  next
    case other
    with Cons [of d f p r "wrap64 (x + Attempts a)"] show ?thesis
      by (simp add: count_state_def)
  qed
qed


lemma count_state_total_le:
  "count_state FileDone fs + count_state FileFailed fs + count_state FilePending fs
     + count_state FileRunning fs \<le> int (length fs)"
proof (induction fs)
  case Nil
  then show ?case by (simp add: count_state_def)
next
  case (Cons a fs)
  consider "State a = FileDone" | "State a = FileFailed" | "State a = FilePending"
    | "State a = FileRunning"
    | "State a \<noteq> FileDone" "State a \<noteq> FileFailed" "State a \<noteq> FilePending"
        "State a \<noteq> FileRunning"
    by blast
  then show ?case using Cons by cases (simp_all add: count_state_def)
qed

lemma count_state_all:
  "count_state st fs = int (length fs) \<longleftrightarrow> list_all (\<lambda>f. State f = st) fs"
proof -
  have "length (filter (\<lambda>f. State f = st) fs) = length fs \<longleftrightarrow> (\<forall>f\<in>set fs. State f = st)"
  proof -
    have "length (filter (\<lambda>f. State f = st) fs) + length (filter (\<lambda>f. \<not> State f = st) fs) = length fs"
      by (rule sum_length_filter_compl)
    then have "length (filter (\<lambda>f. State f = st) fs) = length fs \<longleftrightarrow> filter (\<lambda>f. \<not> State f = st) fs = []"
      by auto
    then show ?thesis by (simp add: filter_empty_conv)
  qed
  then show ?thesis by (simp add: count_state_def list_all_iff)
qed

lemma count_state_pos:
  "0 < count_state st fs \<longleftrightarrow> list_ex (\<lambda>f. State f = st) fs"
  by (auto simp: count_state_def list_ex_iff filter_empty_conv)

lemma RecomputeStatus_fields:
  "Files (RecomputeStatus t) = Files t"
  "Total (RecomputeStatus t) = int (length (Files t))"
  "Done (RecomputeStatus t) = count_state FileDone (Files t)"
  "Failed (RecomputeStatus t) = count_state FileFailed (Files t)"
  "Pending (RecomputeStatus t) = count_state FilePending (Files t)"
  "Running (RecomputeStatus t) = count_state FileRunning (Files t)"
  "ID (RecomputeStatus t) = ID t"
  "DestDir (RecomputeStatus t) = DestDir t"
proof -
  obtain x where cf: "count_files (Files t) (0, 0, 0, 0, 0) =
      (count_state FileDone (Files t), count_state FileFailed (Files t),
       count_state FilePending (Files t), count_state FileRunning (Files t), x)"
    using count_files_proj [of "Files t" 0 0 0 0 0] by auto
  show "Files (RecomputeStatus t) = Files t"
    "Total (RecomputeStatus t) = int (length (Files t))"
    "Done (RecomputeStatus t) = count_state FileDone (Files t)"
    "Failed (RecomputeStatus t) = count_state FileFailed (Files t)"
    "Pending (RecomputeStatus t) = count_state FilePending (Files t)"
    "Running (RecomputeStatus t) = count_state FileRunning (Files t)"
    "ID (RecomputeStatus t) = ID t"
    "DestDir (RecomputeStatus t) = DestDir t"
    by (simp_all add: RecomputeStatus_def Let_def cf)
qed

lemma RecomputeStatus_Status:
  "Status (RecomputeStatus t) =
     (if 0 < int (length (Files t)) \<and> count_state FileDone (Files t) = int (length (Files t)) then TaskComplete
      else if 0 < int (length (Files t)) \<and> count_state FileFailed (Files t) = int (length (Files t)) then TaskFailed
      else if 0 < count_state FileRunning (Files t) then TaskRunning
      else if 0 < count_state FileDone (Files t) \<and> 0 < count_state FileFailed (Files t)
          \<and> count_state FilePending (Files t) = 0 \<and> count_state FileRunning (Files t) = 0 then TaskPartial
      else TaskPending)"
proof -
  obtain x where cf: "count_files (Files t) (0, 0, 0, 0, 0) =
      (count_state FileDone (Files t), count_state FileFailed (Files t),
       count_state FilePending (Files t), count_state FileRunning (Files t), x)"
    using count_files_proj [of "Files t" 0 0 0 0 0] by auto
  show ?thesis
    unfolding RecomputeStatus_def Let_def cf by simp
qed

lemma RecomputeStatus_spec: "Status (RecomputeStatus t) = spec_status (Files t)"
  unfolding RecomputeStatus_Status spec_status_def
  by (simp only: count_state_all count_state_pos of_nat_0_less_iff length_greater_0_conv)











text \<open>
  The claim as stated has the four counters add up to \<open>total\<close> after every transition,
  recovery among them. A journal record can hold a file in a state that is none of the
  four; recovery keeps it, and \<open>RecomputeStatus\<close> counts it in \<open>total\<close> only.
\<close>

theorem foreign_state_not_counted:
  "Total (recover_task foreign_task) = 2 \<and> Done (recover_task foreign_task) = 1 \<and>
   Failed (recover_task foreign_task) = 0 \<and> Pending (recover_task foreign_task) = 0 \<and>
   Running (recover_task foreign_task) = 0 \<and>
   Done (recover_task foreign_task) + Failed (recover_task foreign_task)
     + Pending (recover_task foreign_task) + Running (recover_task foreign_task)
     \<noteq> Total (recover_task foreign_task)"
  by (simp add: recover_task_def RecomputeStatus_fields foreign_task_def example_task_def
      example_file_def reset_running_def count_state_def FileDone_def FileFailed_def
      FilePending_def FileRunning_def)

subsection \<open>Pagination of the task list\<close>

lemma Atoi_examples: "Atoi ''abc'' = None" "Atoi ''-5'' = Some (-5)" "Atoi ''7'' = Some 7"
  by (simp_all add: Atoi_def is_digit_def digits_value_def)

text \<open>
  Claim C6 says that a \<open>limit\<close> or \<open>offset\<close> that is not a non-negative integer makes
  \<open>GET /tasks\<close> answer 400. \<open>positiveInt\<close> reports the error, but the handler drops
  it and goes on with the value 0: the answer is 200, with an empty list for a bad
  \<open>limit\<close> and the list from its start for a bad \<open>offset\<close>. Whatever the query, the
  answer is 200 or, when the slice bounds overflow, 500, and never 400.
\<close>

theorem tasks_get_ignores_bad_pagination:
  "tasks_get [(''limit'', ''abc'')] ts = (200, []) \<and>
   snd (positiveInt [(''limit'', ''abc'')] ''limit'' 100) = Some (ErrBadInt ''limit'') \<and>
   tasks_get [(''offset'', ''-5'')] ts = (200, take 100 ts) \<and>
   (fst (tasks_get q ts) = 200 \<or> fst (tasks_get q ts) = 500)"
proof -
  have "fst (tasks_get q ts) = 200 \<or> fst (tasks_get q ts) = 500"
    by (simp add: tasks_get_def Let_def)
  moreover have "tasks_get [(''limit'', ''abc'')] ts = (200, [])"
    by (simp add: tasks_get_def positiveInt_def query_Get_def Atoi_examples Let_def wrap64_def)
  moreover have "snd (positiveInt [(''limit'', ''abc'')] ''limit'' 100) = Some (ErrBadInt ''limit'')"
    by (simp add: positiveInt_def query_Get_def Atoi_examples)
  moreover have "tasks_get [(''offset'', ''-5'')] ts = (200, take 100 ts)"
    by (simp add: tasks_get_def positiveInt_def query_Get_def Atoi_examples Let_def wrap64_def)
  ultimately show ?thesis by blast
qed

subsection \<open>Fetch\<close>

lemma attempt_transport_error_keeps_staging_file:
  "request_err (http_script P (reqs w)) = None \<Longrightarrow> mkdir_err (http_script P (reqs w)) = None \<Longrightarrow>
   create_err (http_script P (reqs w)) = None \<Longrightarrow> do_result (http_script P (reqs w)) = Inl e \<Longrightarrow>
   dest @ ''.part'' \<in> disk (snd (attempt P dest w))"
  by (simp add: attempt_def Let_def os_Create_def)

text \<open>
  Claim C8 says that an attempt ending in a transport error removes the staging file
  before the backoff wait. The transport-error branch closes the file and does not
  remove it, unlike the branches for a bad status, a copy, close or rename error: with
  one attempt allowed and a refused connection, \<open>Fetch\<close> returns the error and the
  staging file is still on disk, while after a 500 answer it is gone.
\<close>

theorem Fetch_transport_error_leaves_staging_file:
  "Fetch (example_platform (\<lambda>n. ok_attempt (Inl (ErrTransport ''connection refused'')))) 1
      ''http://fake/a.bin'' ''d/a.bin'' \<lparr>disk = {}, reqs = 0, clock = 0\<rparr>
   = (Inl (ErrTransport ''connection refused''), \<lparr>disk = {''d/a.bin.part''}, reqs = 1, clock = 0\<rparr>)
   \<and>
   Fetch (example_platform (\<lambda>n. ok_attempt (Inr (Response 500 0 None)))) 1
      ''http://fake/a.bin'' ''d/a.bin'' \<lparr>disk = {}, reqs = 0, clock = 0\<rparr>
   = (Inl (ErrHTTP 500), \<lparr>disk = {}, reqs = 1, clock = 0\<rparr>)"
  by (simp add: Fetch_def example_platform_def ok_attempt_def attempt_def wait_backoff_def
      os_Create_def os_Remove_def Let_def)

subsection \<open>The journal\<close>














subsection \<open>Recovery at startup\<close>



























subsection \<open>The worker\<close>

lemma attempt_fails:
  "responds P (reqs w) c \<Longrightarrow> c < 200 \<or> 300 \<le> c \<Longrightarrow> \<not> (500 \<le> c \<and> c < 600) \<Longrightarrow>
   attempt P dest w =
     (Return (Inl (ErrHTTP c)),
      os_Remove (dest @ ''.part'') (os_Create (dest @ ''.part'') (w\<lparr>reqs := reqs w + 1\<rparr>)))"
  by (auto simp: attempt_def responds_def Let_def split: sum.splits option.splits)



lemma Fetch_fails:
  assumes "url_Parse P u \<noteq> None" "responds P (reqs w) c" "c < 200 \<or> 300 \<le> c"
    "\<not> (500 \<le> c \<and> c < 600)"
  shows "Fetch P r u dest w =
     (Inl (ErrHTTP c),
      os_Remove (dest @ ''.part'') (os_Create (dest @ ''.part'') (w\<lparr>reqs := reqs w + 1\<rparr>)))"
proof -
  obtain n where n: "nat (max 1 r) = Suc n" by (cases "nat (max 1 r)") auto
  show ?thesis using assms(1) by (auto simp: Fetch_def n attempt_fails [OF assms(2-4)])
qed



lemma wrap64_id: "- (2 ^ 63) \<le> x \<Longrightarrow> x < 2 ^ 63 \<Longrightarrow> wrap64 x = x"
  by (simp add: wrap64_def)

lemma Fetch_404:
  assumes "\<forall>n. responds P n 404" "url_Parse P u \<noteq> None"
  shows "fst (Fetch P r u dest w) = Inl (ErrHTTP 404)"
    and "reqs (snd (Fetch P r u dest w)) = reqs w + 1"
    and "clock (snd (Fetch P r u dest w)) = clock w"
  using assms Fetch_fails [of P u w 404 r dest]
  by (simp_all add: os_Remove_def os_Create_def)

lemma single_file_status:
  "length (Files t) = 1 \<Longrightarrow>
   Status (RecomputeStatus t) =
     (if State (hd (Files t)) = FileDone then TaskComplete
      else if State (hd (Files t)) = FileFailed then TaskFailed
      else if State (hd (Files t)) = FileRunning then TaskRunning
      else TaskPending)"
  by (cases "Files t") (auto simp: RecomputeStatus_spec spec_status_def count_state_def)

lemma worker_step_404:
  assumes all: "\<forall>n. responds P n 404" and parse: "url_Parse P (URL f) \<noteq> None"
    and reg: "tasks a tid = Some t" and files: "Files t = [f]" and pend: "State f = FilePending"
    and k: "Attempts f = k" "0 \<le> k" "k + 1 < 2 ^ 63"
  shows "\<exists>t' f'.
        tasks (worker_step P \<lparr>TaskID = tid, FileIndex = 0, JobHost = h\<rparr> a) tid = Some t' \<and>
        Files t' = [f'] \<and> Attempts f' = k + 1 \<and>
        MaxAttempts f' = MaxAttempts f \<and> URL f' = URL f \<and> Host f' = Host f \<and>
        State f' = (if k + 1 < MaxAttempts f then FilePending else FileFailed) \<and>
        Status t' = (if k + 1 < MaxAttempts f then TaskPending else TaskFailed) \<and>
        queue (worker_step P \<lparr>TaskID = tid, FileIndex = 0, JobHost = h\<rparr> a) =
          queue a @ (if k + 1 < MaxAttempts f
                     then [\<lparr>TaskID = tid, FileIndex = 0, JobHost = Host f\<rparr>] else []) \<and>
        reqs (env (worker_step P \<lparr>TaskID = tid, FileIndex = 0, JobHost = h\<rparr> a)) =
          reqs (env a) + 1 \<and>
        Conf (worker_step P \<lparr>TaskID = tid, FileIndex = 0, JobHost = h\<rparr> a) = Conf a"
proof -
  have w: "wrap64 (k + 1) = k + 1" using k by (intro wrap64_id) auto
  show ?thesis
    unfolding worker_step_def
    using w k(1)
    by (simp add: reg files pend Let_def split_beta journal_def start_phase_def
        completion_phase_def retry_reset_def RecomputeStatus_fields single_file_status
        Fetch_404 [OF all parse])
qed

lemma worker_404_loop:
  assumes all: "\<forall>n. responds P n 404"
  shows "url_Parse P (URL f) \<noteq> None \<Longrightarrow> tasks a tid = Some t \<Longrightarrow> Files t = [f] \<Longrightarrow>
     State f = FilePending \<Longrightarrow> Attempts f = k \<Longrightarrow> 0 \<le> k \<Longrightarrow> k + 1 < 2 ^ 63 \<Longrightarrow>
     MaxAttempts f = m \<Longrightarrow> m < 2 ^ 63 \<Longrightarrow> d = nat (m - (k + 1)) \<Longrightarrow>
     queue a = [\<lparr>TaskID = tid, FileIndex = 0, JobHost = Host f\<rparr>] \<Longrightarrow>
     \<exists>a' t' f'. workerLoop P (Suc d) a = Some a' \<and> queue a' = [] \<and>
        tasks a' tid = Some t' \<and> Files t' = [f'] \<and> State f' = FileFailed \<and>
        Attempts f' = max (k + 1) m \<and> Status t' = TaskFailed \<and>
        reqs (env a') = reqs (env a) + Suc d"
proof (induction d arbitrary: a t f k)
  case 0
  let ?a1 = "worker_step P \<lparr>TaskID = tid, FileIndex = 0, JobHost = Host f\<rparr> (a\<lparr>queue := []\<rparr>)"
  have last: "\<not> k + 1 < MaxAttempts f" using 0 by simp
  obtain t' f' where s: "tasks ?a1 tid = Some t'" "Files t' = [f']" "Attempts f' = k + 1"
      "State f' = FileFailed" "Status t' = TaskFailed" "queue ?a1 = []"
      "reqs (env ?a1) = reqs (env a) + 1"
    using worker_step_404 [OF all "0.prems"(1) _ "0.prems"(3,4,5,6,7),
        where a = "a\<lparr>queue := []\<rparr>" and tid = tid and h = "Host f"]
      "0.prems"(2) last
    by auto
  have "workerLoop P (Suc 0) a = Some ?a1"
    using "0.prems"(11) s(6) by simp
  moreover have "max (k + 1) m = k + 1" using last "0.prems"(8) by simp
  ultimately show ?case using s by auto
next
  case (Suc d)
  let ?a1 = "worker_step P \<lparr>TaskID = tid, FileIndex = 0, JobHost = Host f\<rparr> (a\<lparr>queue := []\<rparr>)"
  have more: "k + 1 < MaxAttempts f" using Suc.prems by simp
  obtain t' f' where s: "tasks ?a1 tid = Some t'" "Files t' = [f']" "Attempts f' = k + 1"
      "MaxAttempts f' = MaxAttempts f" "URL f' = URL f" "Host f' = Host f"
      "State f' = FilePending" "queue ?a1 = [\<lparr>TaskID = tid, FileIndex = 0, JobHost = Host f\<rparr>]"
      "reqs (env ?a1) = reqs (env a) + 1"
    using worker_step_404 [OF all Suc.prems(1) _ Suc.prems(3,4,5,6,7),
        where a = "a\<lparr>queue := []\<rparr>" and tid = tid and h = "Host f"]
      Suc.prems(2) more
    by auto
  have step: "workerLoop P (Suc (Suc d)) a = workerLoop P (Suc d) ?a1"
    using Suc.prems(11) by simp
  have "\<exists>a' t'' f''. workerLoop P (Suc d) ?a1 = Some a' \<and> queue a' = [] \<and>
        tasks a' tid = Some t'' \<and> Files t'' = [f''] \<and> State f'' = FileFailed \<and>
        Attempts f'' = max (k + 1 + 1) m \<and> Status t'' = TaskFailed \<and>
        reqs (env a') = reqs (env ?a1) + Suc d"
  proof (rule Suc.IH [of f' ?a1 t' "k + 1"])
    show "url_Parse P (URL f') \<noteq> None" using Suc.prems(1) s(5) by simp
    show "tasks ?a1 tid = Some t'" by (rule s(1))
    show "Files t' = [f']" by (rule s(2))
    show "State f' = FilePending" by (rule s(7))
    show "Attempts f' = k + 1" by (rule s(3))
    show "0 \<le> k + 1" using Suc.prems(6) by simp
    show "k + 1 + 1 < 2 ^ 63" using more Suc.prems(8,9) by simp
    show "MaxAttempts f' = m" using s(4) Suc.prems(8) by simp
    show "m < 2 ^ 63" by (rule Suc.prems(9))
    show "d = nat (m - (k + 1 + 1))" using Suc.prems(10) by simp
    show "queue ?a1 = [\<lparr>TaskID = tid, FileIndex = 0, JobHost = Host f'\<rparr>]" using s(8,6) by simp
  qed
  moreover have "max (k + 1 + 1) m = max (k + 1) m" using more Suc.prems(8) by simp
  ultimately show ?case using step s(9) by auto
qed

lemma tasks_post_single:
  assumes "url_Parse P link = Some u" "Scheme u \<noteq> []" "UrlHost u \<noteq> []"
    and "queue a0 = []"
  shows "fst (tasks_post P tid now label destDir [link] a0) = 200 \<and>
     (\<exists>t f. tasks (snd (tasks_post P tid now label destDir [link] a0)) tid = Some t \<and>
         Files t = [f] \<and> State f = FilePending \<and> Attempts f = 0 \<and>
         MaxAttempts f = ConfRetries (Conf a0) \<and> URL f = link \<and> Host f = UrlHost u) \<and>
     queue (snd (tasks_post P tid now label destDir [link] a0)) =
       [\<lparr>TaskID = tid, FileIndex = 0, JobHost = UrlHost u\<rparr>] \<and>
     Conf (snd (tasks_post P tid now label destDir [link] a0)) = Conf a0 \<and>
     env (snd (tasks_post P tid now label destDir [link] a0)) = env a0"
  using assms
  by (simp add: tasks_post_def NewTask_def AddTask_def journal_def Let_def
      RecomputeStatus_fields)


lemma permanent_failure_run:
  assumes all: "\<forall>n. responds P n 404"
    and url: "url_Parse P link = Some u" "Scheme u \<noteq> []" "UrlHost u \<noteq> []"
    and q0: "queue a0 = []" and r: "ConfRetries (Conf a0) = r" "r < 2 ^ 63"
    and a1: "a1 = snd (tasks_post P tid now label destDir [link] a0)"
  shows "fst (tasks_post P tid now label destDir [link] a0) = 200 \<and>
     (\<exists>a2 t f. workerLoop P (nat (max 1 r)) a1 = Some a2 \<and> queue a2 = [] \<and>
        tasks a2 tid = Some t \<and> Files t = [f] \<and> State f = FileFailed \<and>
        Attempts f = max 1 r \<and> Status t = TaskFailed \<and>
        reqs (env a2) = reqs (env a0) + nat (max 1 r)) \<and>
     (1 < r \<longrightarrow>
        (\<exists>t f. tasks (worker_step P (hd (queue a1)) (a1\<lparr>queue := tl (queue a1)\<rparr>)) tid = Some t \<and>
           Files t = [f] \<and> State f = FilePending \<and> Attempts f = 1 \<and>
           queue (worker_step P (hd (queue a1)) (a1\<lparr>queue := tl (queue a1)\<rparr>)) = queue a1))"
proof -
  from tasks_post_single [OF url q0, of tid now label destDir]
  obtain t f where code: "fst (tasks_post P tid now label destDir [link] a0) = 200"
    and t: "tasks a1 tid = Some t" "Files t = [f]" "State f = FilePending" "Attempts f = 0"
      "MaxAttempts f = r" "URL f = link" "Host f = UrlHost u"
    and q: "queue a1 = [\<lparr>TaskID = tid, FileIndex = 0, JobHost = UrlHost u\<rparr>]"
    and e: "env a1 = env a0"
    unfolding a1 r by blast
  have parse: "url_Parse P (URL f) \<noteq> None" using url(1) t(6) by simp
  have fuel: "nat (max 1 r) = Suc (nat (r - (0 + 1)))" by auto
  have "\<exists>a' t' f'. workerLoop P (Suc (nat (r - (0 + 1)))) a1 = Some a' \<and> queue a' = [] \<and>
        tasks a' tid = Some t' \<and> Files t' = [f'] \<and> State f' = FileFailed \<and>
        Attempts f' = max (0 + 1) r \<and> Status t' = TaskFailed \<and>
        reqs (env a') = reqs (env a1) + Suc (nat (r - (0 + 1)))"
    using q t(7) r(2)
    by (intro worker_404_loop [OF all parse t(1,2,3,4) _ _ t(5)]) simp_all
  then have run: "\<exists>a2 t f. workerLoop P (nat (max 1 r)) a1 = Some a2 \<and> queue a2 = [] \<and>
        tasks a2 tid = Some t \<and> Files t = [f] \<and> State f = FileFailed \<and>
        Attempts f = max 1 r \<and> Status t = TaskFailed \<and>
        reqs (env a2) = reqs (env a0) + nat (max 1 r)"
    unfolding fuel e by simp
  have first: "1 < r \<longrightarrow>
        (\<exists>t f. tasks (worker_step P (hd (queue a1)) (a1\<lparr>queue := tl (queue a1)\<rparr>)) tid = Some t \<and>
           Files t = [f] \<and> State f = FilePending \<and> Attempts f = 1 \<and>
           queue (worker_step P (hd (queue a1)) (a1\<lparr>queue := tl (queue a1)\<rparr>)) = queue a1)"
  proof
    assume "1 < r"
    then show "\<exists>t f. tasks (worker_step P (hd (queue a1)) (a1\<lparr>queue := tl (queue a1)\<rparr>)) tid = Some t \<and>
           Files t = [f] \<and> State f = FilePending \<and> Attempts f = 1 \<and>
           queue (worker_step P (hd (queue a1)) (a1\<lparr>queue := tl (queue a1)\<rparr>)) = queue a1"
      using worker_step_404 [OF all parse _ t(2,3,4), where a = "a1\<lparr>queue := []\<rparr>" and tid = tid
          and h = "UrlHost u"] t(1,5,7) q
      by auto
  qed
  show ?thesis using code run first by blast
qed

lemma always_404_responds: "\<forall>n. responds always_404 n 404"
  by (simp add: responds_def always_404_def example_platform_def ok_attempt_def)

lemma always_404_parse:
  "url_Parse always_404 l = Some \<lparr>Scheme = ''http'', UrlHost = ''fake'', UrlPath = ''/a.bin''\<rparr>"
  by (simp add: always_404_def example_platform_def)

text \<open>
  Claim C1, amended. A task of one URL is submitted and the server answers 404 to every
  request. Each call of \<open>Fetch\<close> fails on its first request, with no retry inside
  \<open>Fetch\<close>; the worker counts one attempt per call and, while the attempts are fewer
  than \<open>max_attempts\<close> (the configured retries), resets the file to PENDING and sends
  its job again. The workers come to rest with the file FAILED, \<open>attempts\<close> equal to
  the greater of 1 and the retries, the task FAILED, and one request made per attempt.
  With more than one retry configured, the first job leaves the file PENDING with one
  attempt and its job queued again.
\<close>

theorem permanent_failure_retried_by_worker:
  assumes "\<forall>n. responds P n 404"
    and "url_Parse P link = Some u" "Scheme u \<noteq> []" "UrlHost u \<noteq> []"
    and "queue a0 = []" and "ConfRetries (Conf a0) = r" "r < 2 ^ 63"
    and "a1 = snd (tasks_post P tid now label destDir [link] a0)"
  shows "fst (tasks_post P tid now label destDir [link] a0) = 200 \<and>
     (\<exists>a2 t f. workerLoop P (nat (max 1 r)) a1 = Some a2 \<and> queue a2 = [] \<and>
        tasks a2 tid = Some t \<and> Files t = [f] \<and> State f = FileFailed \<and>
        Attempts f = max 1 r \<and> Status t = TaskFailed \<and>
        reqs (env a2) = reqs (env a0) + nat (max 1 r)) \<and>
     (1 < r \<longrightarrow>
        (\<exists>t f. tasks (worker_step P (hd (queue a1)) (a1\<lparr>queue := tl (queue a1)\<rparr>)) tid = Some t \<and>
           Files t = [f] \<and> State f = FilePending \<and> Attempts f = 1 \<and>
           queue (worker_step P (hd (queue a1)) (a1\<lparr>queue := tl (queue a1)\<rparr>)) = queue a1))"
  using assms by (rule permanent_failure_run)

lemma submitted_queue: "queue (submitted always_404 r) = [first_job]"
  using tasks_post_single [OF always_404_parse, of "fresh_app r" "''t1''" 0 "''x''" "''d''"
      "''http://fake/a.bin''"]
  by (simp add: submitted_def first_job_def fresh_app_def)

theorem permanent_failure_retried_by_worker_witness:
  "run_outcome (workerLoop always_404 1 (submitted always_404 1)) ''t1''
     = Some ([(FileFailed, 1)], Some TaskFailed, [], 1) \<and>
   run_outcome (workerLoop always_404 2 (submitted always_404 2)) ''t1''
     = Some ([(FileFailed, 2)], Some TaskFailed, [], 2) \<and>
   file_states (worker_step always_404 first_job ((submitted always_404 2)\<lparr>queue := []\<rparr>)) ''t1''
     = [(FilePending, 1)] \<and>
   queue (worker_step always_404 first_job ((submitted always_404 2)\<lparr>queue := []\<rparr>)) = [first_job]"
proof -
  have one: "run_outcome (workerLoop always_404 1 (submitted always_404 1)) ''t1''
      = Some ([(FileFailed, 1)], Some TaskFailed, [], 1)"
    using permanent_failure_retried_by_worker [OF always_404_responds always_404_parse,
        of "fresh_app 1" 1 "submitted always_404 1" "''t1''" 0 "''x''" "''d''" "''http://fake/a.bin''"]
    by (auto simp: submitted_def fresh_app_def file_states_def task_status_def run_outcome_def)
  have two: "run_outcome (workerLoop always_404 2 (submitted always_404 2)) ''t1''
      = Some ([(FileFailed, 2)], Some TaskFailed, [], 2) \<and>
    file_states (worker_step always_404 first_job ((submitted always_404 2)\<lparr>queue := []\<rparr>)) ''t1''
      = [(FilePending, 1)] \<and>
    queue (worker_step always_404 first_job ((submitted always_404 2)\<lparr>queue := []\<rparr>)) = [first_job]"
    using permanent_failure_retried_by_worker [OF always_404_responds always_404_parse,
        of "fresh_app 2" 2 "submitted always_404 2" "''t1''" 0 "''x''" "''d''" "''http://fake/a.bin''"]
      submitted_queue [of 2]
    by (auto simp: submitted_def fresh_app_def file_states_def task_status_def run_outcome_def)
  show ?thesis using one two by blast
qed

text \<open>
  The claim as stated has \<open>attempts = 1\<close> and no reset to PENDING or second job after a
  4xx failure. With \<open>retries = 3\<close> and a server that always answers 404, the first job
  leaves the file PENDING with one attempt and its job queued again, and the run ends
  after three jobs and three requests with \<open>attempts = 3\<close>.
\<close>

theorem not_found_attempts_3:
  "run_outcome (workerLoop always_404 3 (submitted always_404 3)) ''t1''
     = Some ([(FileFailed, 3)], Some TaskFailed, [], 3) \<and>
   file_states (worker_step always_404 first_job ((submitted always_404 3)\<lparr>queue := []\<rparr>)) ''t1''
     = [(FilePending, 1)] \<and>
   queue (worker_step always_404 first_job ((submitted always_404 3)\<lparr>queue := []\<rparr>)) = [first_job]"
  using permanent_failure_run [OF always_404_responds always_404_parse, of "fresh_app 3" 3
      "submitted always_404 3" "''t1''" 0 "''x''" "''d''" "''http://fake/a.bin''"]
    submitted_queue [of 3]
  by (auto simp: submitted_def fresh_app_def file_states_def task_status_def run_outcome_def)









end
